theory Spec2Isabelle
  imports Complex_Main
begin

section \<open>Python values\<close>

text \<open>
  A Python \<open>str\<close> is a sequence of Unicode code points and \<open>len\<close> counts code points,
  so a string is modelled as a list of code points (natural numbers). Literals of the
  source are written with \<open>lit\<close>, which maps each ASCII character to its code point.
\<close>

type_synonym pystr = "nat list"

definition lit :: "string \<Rightarrow> pystr" where
  "lit s = map of_char s"

text \<open>The exceptions the modelled code can meet; \<open>OtherError\<close> stands for any other
  subclass of \<open>Exception\<close>.\<close>

datatype exn =
    KeyError | TypeError | AttributeError | IndexError
  | JSONDecodeError | ClientError
  | TranscriptsDisabled | NoTranscriptFound
  | OtherError

text \<open>
  What \<open>json.loads\<close> returns: \<open>None\<close>, \<open>bool\<close>, \<open>int\<close>, \<open>float\<close>, \<open>str\<close>, \<open>list\<close>
  and \<open>dict\<close>. A dict is an association list in insertion order; a lookup takes the
  first binding of a key (a Python dict holds one binding per key). Only the
  truth value of a float is ever used, for which a real number suffices (the non-numbers
  and infinities Python accepts are non-zero).
\<close>

datatype json =
    JNull
  | JBool bool
  | JInt int
  | JFloat real
  | JStr pystr
  | JList "json list"
  | JObj "(pystr \<times> json) list"

text \<open>Python truthiness, as used by \<open>if x\<close> and \<open>not x\<close>.\<close>

fun py_truthy :: "json \<Rightarrow> bool" where
  "py_truthy JNull = False"
| "py_truthy (JBool b) = b"
| "py_truthy (JInt i) = (i \<noteq> 0)"
| "py_truthy (JFloat x) = (x \<noteq> 0)"
| "py_truthy (JStr s) = (s \<noteq> [])"
| "py_truthy (JList xs) = (xs \<noteq> [])"
| "py_truthy (JObj kvs) = (kvs \<noteq> [])"

text \<open>Substring test, the meaning of \<open>in\<close> between two strings.\<close>

fun starts_with :: "pystr \<Rightarrow> pystr \<Rightarrow> bool" where
  "starts_with [] s = True"
| "starts_with (c # cs) [] = False"
| "starts_with (c # cs) (d # ds) = (c = d \<and> starts_with cs ds)"

fun py_substring :: "pystr \<Rightarrow> pystr \<Rightarrow> bool" where
  "py_substring sub [] = (sub = [])"
| "py_substring sub (d # ds) = (starts_with sub (d # ds) \<or> py_substring sub ds)"

text \<open>
  \<open>key in x\<close> for a string key: key membership for a dict, element membership for a
  list, substring test for a string, and \<open>TypeError\<close> for a value that is not iterable.
\<close>

fun py_in :: "pystr \<Rightarrow> json \<Rightarrow> exn + bool" where
  "py_in k (JObj kvs) = Inr (map_of kvs k \<noteq> None)"
| "py_in k (JList xs) = Inr (JStr k \<in> set xs)"
| "py_in k (JStr s) = Inr (py_substring k s)"
| "py_in k JNull = Inl TypeError"
| "py_in k (JBool b) = Inl TypeError"
| "py_in k (JInt i) = Inl TypeError"
| "py_in k (JFloat x) = Inl TypeError"

text \<open>
  \<open>x[key]\<close> for a string key: \<open>KeyError\<close> for a dict without the key, \<open>TypeError\<close>
  for every other value (list and string indices must be integers, the rest is not
  subscriptable).
\<close>

fun py_getitem :: "json \<Rightarrow> pystr \<Rightarrow> exn + json" where
  "py_getitem (JObj kvs) k = (case map_of kvs k of None \<Rightarrow> Inl KeyError | Some v \<Rightarrow> Inr v)"
| "py_getitem (JList xs) k = Inl TypeError"
| "py_getitem (JStr s) k = Inl TypeError"
| "py_getitem JNull k = Inl TypeError"
| "py_getitem (JBool b) k = Inl TypeError"
| "py_getitem (JInt i) k = Inl TypeError"
| "py_getitem (JFloat x) k = Inl TypeError"

text \<open>\<open>x.get(key, default)\<close>: only a dict has the method.\<close>

fun py_get :: "json \<Rightarrow> pystr \<Rightarrow> json \<Rightarrow> exn + json" where
  "py_get (JObj kvs) k d = Inr (case map_of kvs k of None \<Rightarrow> d | Some v \<Rightarrow> v)"
| "py_get (JList xs) k d = Inl AttributeError"
| "py_get (JStr s) k d = Inl AttributeError"
| "py_get JNull k d = Inl AttributeError"
| "py_get (JBool b) k d = Inl AttributeError"
| "py_get (JInt i) k d = Inl AttributeError"
| "py_get (JFloat x) k d = Inl AttributeError"

fun is_dict :: "json \<Rightarrow> bool" where
  "is_dict (JObj kvs) = True"
| "is_dict v = False"

section \<open>Configuration (utils/config.py)\<close>

text \<open>
  The surroundings of the loader: the two environment variables, the outcome of the
  S3 \<open>get_object\<close> call with the body read and decoded (an exception, or the text),
  the state of the local file, and the JSON parser of the Python library.
  \<open>S3_CONFIG_KEY\<close> has a default, so it is always a string.
\<close>

datatype file_state = FileMissing | FileUnreadable | FileText pystr

record config_env =
  S3_CONFIG_BUCKET :: "pystr option"
  S3_CONFIG_KEY :: pystr
  s3_get_object :: "pystr \<Rightarrow> pystr \<Rightarrow> exn + pystr"
  config_file :: file_state
  json_loads :: "pystr \<Rightarrow> exn + json"

text \<open>\<open>load_config_from_file\<close>: \<open>None\<close> (here \<open>JNull\<close>) when the file is missing, cannot
  be read or does not parse.\<close>

definition load_config_from_file :: "config_env \<Rightarrow> json" where
  "load_config_from_file env =
     (case config_file env of
        FileMissing \<Rightarrow> JNull
      | FileUnreadable \<Rightarrow> JNull
      | FileText t \<Rightarrow> (case json_loads env t of Inl e \<Rightarrow> JNull | Inr c \<Rightarrow> c))"

text \<open>\<open>load_config_from_s3\<close>: \<open>None\<close> when the bucket or key is unset or empty, when the
  request or the decoding raises, or when the body does not parse.\<close>

definition load_config_from_s3 :: "config_env \<Rightarrow> json" where
  "load_config_from_s3 env =
     (case S3_CONFIG_BUCKET env of
        None \<Rightarrow> JNull
      | Some bucket \<Rightarrow>
          if bucket = [] \<or> S3_CONFIG_KEY env = [] then JNull
          else (case s3_get_object env bucket (S3_CONFIG_KEY env) of
                  Inl e \<Rightarrow> JNull
                | Inr body \<Rightarrow> (case json_loads env body of Inl e \<Rightarrow> JNull | Inr c \<Rightarrow> c)))"

text \<open>The loop over the required top-level keys, and the same loop over the required
  global settings: the first key that is not \<open>in\<close> the value ends it with \<open>False\<close>.\<close>

fun required_keys_in :: "pystr list \<Rightarrow> json \<Rightarrow> exn + bool" where
  "required_keys_in [] c = Inr True"
| "required_keys_in (k # ks) c =
     (case py_in k c of
        Inl e \<Rightarrow> Inl e
      | Inr b \<Rightarrow> if \<not> b then Inr False else required_keys_in ks c)"

text \<open>The loop over the channels: each must be a dict with \<open>channel_id\<close> and \<open>name\<close>.\<close>

fun check_channels :: "json list \<Rightarrow> bool" where
  "check_channels [] = True"
| "check_channels (ch # chs) =
     (case ch of
        JObj kvs \<Rightarrow>
          if map_of kvs (lit ''channel_id'') = None \<or> map_of kvs (lit ''name'') = None
          then False else check_channels chs
      | _ \<Rightarrow> False)"

definition required_global_settings :: "pystr list" where
  "required_global_settings =
     [lit ''default_summary_style'', lit ''default_summary_length'',
      lit ''default_include_timestamps'']"

definition validate_config :: "json \<Rightarrow> exn + bool" where
  "validate_config config =
     (if \<not> py_truthy config then Inr False
      else case required_keys_in [lit ''channels'', lit ''global_settings''] config of
        Inl e \<Rightarrow> Inl e
      | Inr False \<Rightarrow> Inr False
      | Inr True \<Rightarrow>
         (case py_getitem config (lit ''channels'') of
            Inl e \<Rightarrow> Inl e
          | Inr chans \<Rightarrow>
             (case chans of
                JList chs \<Rightarrow>
                  if chs = [] then Inr False
                  else if \<not> check_channels chs then Inr False
                  else (case py_getitem config (lit ''global_settings'') of
                          Inl e \<Rightarrow> Inl e
                        | Inr gs \<Rightarrow> required_keys_in required_global_settings gs)
              | _ \<Rightarrow> Inr False)))"

definition default_config :: json where
  "default_config =
     JObj [
       (lit ''channels'', JList [
          JObj [
            (lit ''name'', JStr (lit ''Example Channel'')),
            (lit ''channel_id'', JStr (lit ''UC_x5XG1OV2P6uZZ5FSM9Ttw'')),
            (lit ''summary_style'', JStr (lit ''concise'')),
            (lit ''summary_length'', JInt 500),
            (lit ''include_timestamps'', JBool True),
            (lit ''post_to_twitter'', JBool False),
            (lit ''post_to_blog'', JBool False)]]),
       (lit ''global_settings'', JObj [
          (lit ''default_summary_style'', JStr (lit ''concise'')),
          (lit ''default_summary_length'', JInt 500),
          (lit ''default_include_timestamps'', JBool True),
          (lit ''max_videos_per_channel'', JInt 3),
          (lit ''days_to_look_back'', JInt 1),
          (lit ''openai_model'', JStr (lit ''gpt-4-turbo''))])]"

text \<open>
  \<open>load_config\<close>: the S3 candidate, replaced by the local file when it is falsy; the
  one candidate so chosen is returned when it is truthy and validates, and the default
  otherwise. An exception of \<open>validate_config\<close> leaves the function.
\<close>

definition load_config :: "config_env \<Rightarrow> exn + json" where
  "load_config env =
     (let config = load_config_from_s3 env;
          config = (if \<not> py_truthy config then load_config_from_file env else config)
      in if \<not> py_truthy config then Inr default_config
         else case validate_config config of
                Inl e \<Rightarrow> Inl e
              | Inr ok \<Rightarrow> if ok then Inr config else Inr default_config)"


section \<open>Summaries (services/openai\_service.py)\<close>

text \<open>\<open>str(n)\<close> for an integer: its decimal digits, with a minus sign when negative.\<close>

fun digits :: "nat \<Rightarrow> pystr" where
  "digits n = (if n < 10 then [48 + n] else digits (n div 10) @ [48 + n mod 10])"

definition py_str_int :: "int \<Rightarrow> pystr" where
  "py_str_int i = (if i < 0 then 45 # digits (nat (- i)) else digits (nat i))"

text \<open>\<open>s[:n]\<close>: the first \<open>n\<close> items, and for a negative \<open>n\<close> all but the last \<open>-n\<close>.\<close>

definition py_slice_to :: "int \<Rightarrow> pystr \<Rightarrow> pystr" where
  "py_slice_to n s = (if 0 \<le> n then take (nat n) s else take (length s - nat (- n)) s)"

text \<open>\<open>str.isspace\<close> on one code point, and \<open>str.strip()\<close>.\<close>

definition py_isspace :: "nat \<Rightarrow> bool" where
  "py_isspace c \<longleftrightarrow>
     (9 \<le> c \<and> c \<le> 13) \<or> (28 \<le> c \<and> c \<le> 32) \<or> c = 133 \<or> c = 160 \<or> c = 5760 \<or>
     (8192 \<le> c \<and> c \<le> 8202) \<or> c = 8232 \<or> c = 8233 \<or> c = 8239 \<or> c = 8287 \<or> c = 12288"

definition py_strip :: "pystr \<Rightarrow> pystr" where
  "py_strip s = rev (dropWhile py_isspace (rev (dropWhile py_isspace s)))"

text \<open>
  One call of \<open>client.chat.completions.create\<close> and what reading
  \<open>response.choices[0].message.content\<close> finds: the call raises, the list of choices is
  empty (\<open>IndexError\<close>), the content is \<open>None\<close> (\<open>AttributeError\<close> at \<open>strip\<close>), or
  there is a text.
\<close>

record chat_request =
  model :: pystr
  system_content :: pystr
  user_content :: pystr
  temperature :: real
  max_tokens :: int

datatype completion = CreateRaises exn | NoChoices | ContentNone | ContentText pystr

definition timestamps_instruction :: "bool \<Rightarrow> pystr" where
  "timestamps_instruction include_timestamps =
     (if include_timestamps then lit ''Include key timestamps for important points.''
      else lit ''Do not include timestamps.'')"

definition summary_context :: "pystr option \<Rightarrow> pystr option \<Rightarrow> pystr" where
  "summary_context video_title channel_name =
     (case (video_title, channel_name) of
        (Some t, Some c) \<Rightarrow>
          if t \<noteq> [] \<and> c \<noteq> []
          then lit ''The video is titled '' @ [39] @ t @ [39] @ lit '' from the channel '' @
               [39] @ c @ [39] @ lit ''. ''
          else []
      | _ \<Rightarrow> [])"

text \<open>The prompt as composed by the f-string, before any truncation.\<close>

definition summary_prompt ::
  "pystr \<Rightarrow> pystr \<Rightarrow> int \<Rightarrow> bool \<Rightarrow> pystr option \<Rightarrow> pystr option \<Rightarrow> pystr" where
  "summary_prompt transcript style max_length include_timestamps video_title channel_name =
     summary_context video_title channel_name @
     lit ''Summarize the following YouTube video transcript in a '' @ style @
     lit '' style with a maximum of '' @ py_str_int max_length @ lit '' words. '' @
     timestamps_instruction include_timestamps @ [10, 10] @ lit ''TRANSCRIPT:'' @ [10] @
     transcript"

definition max_prompt_length :: nat where
  "max_prompt_length = 16000"

definition truncation_marker :: pystr where
  "truncation_marker = lit ''... [transcript truncated due to length]''"

text \<open>
  \<open>generate_summary\<close>, with the API key read from the environment and the completion
  call as parameters. The result carries the requests sent, in order, and the value
  returned; every exception inside the \<open>try\<close> block gives \<open>None\<close>.
\<close>

definition generate_summary ::
  "pystr option \<Rightarrow> (chat_request \<Rightarrow> completion) \<Rightarrow> pystr \<Rightarrow> pystr \<Rightarrow> int \<Rightarrow> bool \<Rightarrow>
   pystr option \<Rightarrow> pystr option \<Rightarrow> pystr \<Rightarrow> chat_request list \<times> pystr option" where
  "generate_summary OPENAI_API_KEY create transcript style max_length include_timestamps
       video_title channel_name mdl =
     (if OPENAI_API_KEY = None \<or> OPENAI_API_KEY = Some [] then ([], None)
      else if transcript = [] then ([], None)
      else
        let prompt = summary_prompt transcript style max_length include_timestamps
                       video_title channel_name;
            prompt = (if length prompt > max_prompt_length
                      then take max_prompt_length prompt @ truncation_marker
                      else prompt);
            request = \<lparr>model = mdl,
                       system_content = lit ''You are a helpful assistant that summarizes YouTube videos accurately and concisely.'',
                       user_content = prompt, temperature = 5 / 10, max_tokens = 1000\<rparr>
        in case create request of
             ContentText c \<Rightarrow> ([request], Some (py_strip c))
           | _ \<Rightarrow> ([request], None))"

definition video_url :: "pystr \<Rightarrow> pystr" where
  "video_url video_id = lit ''https://youtu.be/'' @ video_id"

definition attribution :: "pystr \<Rightarrow> pystr" where
  "attribution channel_name = lit '' - '' @ channel_name"

definition available_length :: "int \<Rightarrow> pystr \<Rightarrow> pystr \<Rightarrow> int" where
  "available_length max_length video_id channel_name =
     max_length - int (length (video_url video_id)) - int (length (attribution channel_name)) - 3"

definition tweet_prompt :: "pystr \<Rightarrow> pystr \<Rightarrow> pystr \<Rightarrow> int \<Rightarrow> pystr" where
  "tweet_prompt summary video_title channel_name avail =
     [10] @ lit ''        Create a concise and engaging tweet about this YouTube video that will make people want to watch it.'' @
     [10] @ lit ''        Video title: '' @ video_title @
     [10] @ lit ''        Channel: '' @ channel_name @
     [10] @ lit ''        Summary: '' @ summary @
     [10] @ lit ''        '' @
     [10] @ lit ''        The tweet must be no longer than '' @ py_str_int avail @
            lit '' characters as I will add the video URL and attribution separately.'' @
     [10] @ lit ''        Do not include hashtags, the URL, or the channel name in your response.'' @
     [10] @ lit ''        ''"

text \<open>\<open>generate_tweet\<close>, in the same form as \<open>generate_summary\<close>.\<close>

definition generate_tweet ::
  "pystr option \<Rightarrow> (chat_request \<Rightarrow> completion) \<Rightarrow> pystr \<Rightarrow> pystr \<Rightarrow> pystr \<Rightarrow> pystr \<Rightarrow> int \<Rightarrow>
   chat_request list \<times> pystr option" where
  "generate_tweet OPENAI_API_KEY create summary video_title video_id channel_name max_length =
     (if OPENAI_API_KEY = None \<or> OPENAI_API_KEY = Some [] then ([], None)
      else
        let avail = available_length max_length video_id channel_name
        in if avail \<le> 50 then ([], None)
           else
             let request = \<lparr>model = lit ''gpt-3.5-turbo'',
                            system_content = lit ''You are a social media expert who creates engaging tweets.'',
                            user_content = tweet_prompt summary video_title channel_name avail,
                            temperature = 7 / 10, max_tokens = 100\<rparr>
             in case create request of
                  ContentText c \<Rightarrow>
                    let tweet_content = py_strip c;
                        tweet_content =
                          (if int (length tweet_content) > avail
                           then py_slice_to (avail - 3) tweet_content @ lit ''...''
                           else tweet_content)
                    in ([request],
                        Some (tweet_content @ lit '' '' @ video_url video_id @
                              attribution channel_name))
                | _ \<Rightarrow> ([request], None))"

section \<open>Transcripts (services/youtube\_service.py)\<close>

text \<open>
  The transcript library, as far as \<open>get_video_transcript\<close> uses it: listing the
  transcripts of a video, finding one among given language codes, translating one, and
  fetching its entries. Each call raises or returns; the objects it returns are opaque.
\<close>

record ('tl, 't) transcript_api =
  list_transcripts :: "pystr \<Rightarrow> exn + 'tl"
  find_transcript :: "'tl \<Rightarrow> pystr list \<Rightarrow> exn + 't"
  translate :: "'t \<Rightarrow> pystr \<Rightarrow> exn + 't"
  fetch :: "'t \<Rightarrow> exn + json list"

text \<open>The comprehension \<open>[entry["text"] for entry in transcript_data]\<close>.\<close>

fun entry_texts :: "json list \<Rightarrow> exn + json list" where
  "entry_texts [] = Inr []"
| "entry_texts (entry # rest) =
     (case py_getitem entry (lit ''text'') of
        Inl e \<Rightarrow> Inl e
      | Inr x \<Rightarrow> (case entry_texts rest of Inl e \<Rightarrow> Inl e | Inr xs \<Rightarrow> Inr (x # xs)))"

text \<open>\<open>sep.join(items)\<close>: \<open>TypeError\<close> when an item is not a string.\<close>

fun py_join :: "pystr \<Rightarrow> json list \<Rightarrow> exn + pystr" where
  "py_join sep [] = Inr []"
| "py_join sep [x] = (case x of JStr s \<Rightarrow> Inr s | _ \<Rightarrow> Inl TypeError)"
| "py_join sep (x # y # ys) =
     (case x of
        JStr s \<Rightarrow> (case py_join sep (y # ys) of Inl e \<Rightarrow> Inl e | Inr r \<Rightarrow> Inr (s @ sep @ r))
      | _ \<Rightarrow> Inl TypeError)"

text \<open>The part after a transcript is selected; it runs under the outer handlers.\<close>

definition fetch_and_join :: "('tl, 't) transcript_api \<Rightarrow> 't \<Rightarrow> pystr option" where
  "fetch_and_join api transcript =
     (case fetch api transcript of
        Inl e \<Rightarrow> None
      | Inr transcript_data \<Rightarrow>
          (case entry_texts transcript_data of
             Inl e \<Rightarrow> None
           | Inr texts \<Rightarrow>
               (case py_join (lit '' '') texts of Inl e \<Rightarrow> None | Inr full \<Rightarrow> Some full)))"

definition get_video_transcript ::
  "('tl, 't) transcript_api \<Rightarrow> pystr \<Rightarrow> pystr \<Rightarrow> pystr option" where
  "get_video_transcript api video_id language_code =
     (case list_transcripts api video_id of
        Inl e \<Rightarrow> None
      | Inr transcript_list \<Rightarrow>
          (case find_transcript api transcript_list [language_code] of
             Inr transcript \<Rightarrow> fetch_and_join api transcript
           | Inl e \<Rightarrow>
               if e = NoTranscriptFound
               then (case find_transcript api transcript_list [] of
                       Inl e' \<Rightarrow> None
                     | Inr transcript \<Rightarrow>
                         (case translate api transcript language_code of
                            Inl e' \<Rightarrow> None
                          | Inr translated \<Rightarrow> fetch_and_join api translated))
               else None))"

section \<open>The pipeline (main.py)\<close>

text \<open>
  A search result of the video API, with the three fields the pipeline reads:
  \<open>video["id"]["videoId"]\<close>, \<open>video["snippet"]["title"]\<close> and
  \<open>video["snippet"]["channelTitle"]\<close>.
\<close>

record video =
  videoId :: pystr
  title :: pystr
  channelTitle :: pystr

text \<open>
  The services the pipeline calls act on the world outside (network, database, clock).
  Each is a function from the world before the call to its result and the world after
  it, so two calls with the same arguments may differ. None of them raises: each
  catches its exceptions and returns \<open>None\<close> or \<open>False\<close>; only the computation of
  \<open>published_after\<close> from the configured number of days can raise.
\<close>

record 'w services =
  call_get_processed_videos :: "'w \<Rightarrow> pystr set \<times> 'w"
  call_published_after :: "json \<Rightarrow> 'w \<Rightarrow> (exn + pystr) \<times> 'w"
  call_get_channel_videos :: "json \<Rightarrow> json \<Rightarrow> pystr \<Rightarrow> 'w \<Rightarrow> video list option \<times> 'w"
  call_get_video_transcript :: "pystr \<Rightarrow> 'w \<Rightarrow> pystr option \<times> 'w"
  call_generate_summary ::
    "pystr \<Rightarrow> json \<Rightarrow> json \<Rightarrow> json \<Rightarrow> pystr \<Rightarrow> pystr \<Rightarrow> 'w \<Rightarrow> pystr option \<times> 'w"
  call_post_to_twitter :: "pystr \<Rightarrow> pystr \<Rightarrow> pystr \<Rightarrow> pystr \<Rightarrow> 'w \<Rightarrow> bool \<times> 'w"
  call_mark_video_as_processed :: "pystr \<Rightarrow> pystr \<Rightarrow> pystr \<Rightarrow> 'w \<Rightarrow> bool \<times> 'w"

text \<open>
  What a run does, in order: every call of a service with its arguments and its
  result, and the log line that stands for posting to the blog.
\<close>

datatype event =
    EvProcessedRead "pystr set"
  | EvDiscover json json pystr "video list option"
  | EvTranscript pystr "pystr option"
  | EvSummary pystr json json json pystr pystr "pystr option"
  | EvTweet pystr pystr pystr pystr bool
  | EvBlog pystr
  | EvMark pystr pystr pystr bool

fun is_summary :: "event \<Rightarrow> bool" where
  "is_summary (EvSummary t st ml ts ti cn r) = True"
| "is_summary ev = False"

fun is_mark :: "event \<Rightarrow> bool" where
  "is_mark (EvMark v cn s r) = True"
| "is_mark ev = False"

fun is_tweet :: "event \<Rightarrow> bool" where
  "is_tweet (EvTweet s v ti cn r) = True"
| "is_tweet ev = False"

fun is_blog :: "event \<Rightarrow> bool" where
  "is_blog (EvBlog v) = True"
| "is_blog ev = False"

fun is_read :: "event \<Rightarrow> bool" where
  "is_read (EvProcessedRead P) = True"
| "is_read (EvDiscover cid mr pa r) = True"
| "is_read ev = False"

text \<open>
  \<open>channel_config.get(key, config["global_settings"][default_key])\<close>: the method is
  looked up first, then the default is evaluated, then the call is made.
\<close>

definition setting_of :: "json \<Rightarrow> json \<Rightarrow> pystr \<Rightarrow> pystr \<Rightarrow> exn + json" where
  "setting_of config channel_config key default_key =
     (if \<not> is_dict channel_config then Inl AttributeError
      else case py_getitem config (lit ''global_settings'') of
             Inl e \<Rightarrow> Inl e
           | Inr gs \<Rightarrow>
               (case py_getitem gs default_key of
                  Inl e \<Rightarrow> Inl e
                | Inr d \<Rightarrow> py_get channel_config key d))"

text \<open>The part of \<open>process_video\<close> after the summary: the two sinks, then the record.\<close>

definition distribute_and_record ::
  "'w services \<Rightarrow> video \<Rightarrow> json \<Rightarrow> pystr \<Rightarrow> 'w \<Rightarrow> (exn + bool) \<times> event list \<times> 'w" where
  "distribute_and_record svc video channel_config summary w =
     (case py_get channel_config (lit ''post_to_twitter'') (JBool False) of
        Inl e \<Rightarrow> (Inl e, [], w)
      | Inr tw \<Rightarrow>
          let (tr1, w1) =
                (if py_truthy tw
                 then (let (ok, w') = call_post_to_twitter svc summary (videoId video)
                                        (title video) (channelTitle video) w
                       in ([EvTweet summary (videoId video) (title video)
                              (channelTitle video) ok], w'))
                 else ([], w))
          in (case py_get channel_config (lit ''post_to_blog'') (JBool False) of
                Inl e \<Rightarrow> (Inl e, tr1, w1)
              | Inr bl \<Rightarrow>
                  let tr2 = (if py_truthy bl then [EvBlog (videoId video)] else []);
                      (ok, w2) = call_mark_video_as_processed svc (videoId video)
                                   (channelTitle video) summary w1
                  in (Inr True,
                      tr1 @ tr2 @ [EvMark (videoId video) (channelTitle video) summary ok],
                      w2)))"

text \<open>
  \<open>process_video\<close>: the value returned or the exception raised, the events, and the
  world afterwards. \<open>config\<close> is the module's global, set by \<open>main\<close>.
\<close>

definition process_video ::
  "'w services \<Rightarrow> json \<Rightarrow> video \<Rightarrow> json \<Rightarrow> 'w \<Rightarrow> (exn + bool) \<times> event list \<times> 'w" where
  "process_video svc config video channel_config w =
     (let (transcript, w1) = call_get_video_transcript svc (videoId video) w;
          tr1 = [EvTranscript (videoId video) transcript]
      in case transcript of
           None \<Rightarrow> (Inr False, tr1, w1)
         | Some t \<Rightarrow>
             if t = [] then (Inr False, tr1, w1)
             else
              (case setting_of config channel_config (lit ''summary_style'')
                      (lit ''default_summary_style'') of
                 Inl e \<Rightarrow> (Inl e, tr1, w1)
               | Inr summary_style \<Rightarrow>
              (case setting_of config channel_config (lit ''summary_length'')
                      (lit ''default_summary_length'') of
                 Inl e \<Rightarrow> (Inl e, tr1, w1)
               | Inr summary_length \<Rightarrow>
              (case setting_of config channel_config (lit ''include_timestamps'')
                      (lit ''default_include_timestamps'') of
                 Inl e \<Rightarrow> (Inl e, tr1, w1)
               | Inr include_timestamps \<Rightarrow>
                   let (summary, w2) = call_generate_summary svc t summary_style summary_length
                                         include_timestamps (title video) (channelTitle video) w1;
                       tr2 = tr1 @ [EvSummary t summary_style summary_length include_timestamps
                                      (title video) (channelTitle video) summary]
                   in (case summary of
                         None \<Rightarrow> (Inr False, tr2, w2)
                       | Some s \<Rightarrow>
                           if s = [] then (Inr False, tr2, w2)
                           else
                             let (r, tr3, w3) = distribute_and_record svc video channel_config s w2
                             in (r, tr2 @ tr3, w3))))))"

text \<open>
  The loop over the videos of one channel. An exception of \<open>process_video\<close> ends the
  run; its boolean result is not used.
\<close>

fun videos_loop ::
  "'w services \<Rightarrow> json \<Rightarrow> json \<Rightarrow> pystr set \<Rightarrow> video list \<Rightarrow> 'w \<Rightarrow> exn option \<times> event list \<times> 'w"
where
  "videos_loop svc config channel processed_videos [] w = (None, [], w)"
| "videos_loop svc config channel processed_videos (video # rest) w =
     (if videoId video \<in> processed_videos
      then videos_loop svc config channel processed_videos rest w
      else (case process_video svc config video channel w of
              (Inl e, tr, w1) \<Rightarrow> (Some e, tr, w1)
            | (Inr b, tr, w1) \<Rightarrow>
                let (r, tr', w2) = videos_loop svc config channel processed_videos rest w1
                in (r, tr @ tr', w2)))"

text \<open>The loop over the channels; \<open>None\<close> and the empty list of videos both skip the
  channel.\<close>

fun channels_loop ::
  "'w services \<Rightarrow> json \<Rightarrow> pystr set \<Rightarrow> pystr \<Rightarrow> json list \<Rightarrow> 'w \<Rightarrow> exn option \<times> event list \<times> 'w"
where
  "channels_loop svc config processed_videos published_after [] w = (None, [], w)"
| "channels_loop svc config processed_videos published_after (channel # rest) w =
     (case py_getitem channel (lit ''channel_id'') of
        Inl e \<Rightarrow> (Some e, [], w)
      | Inr channel_id \<Rightarrow>
     (case py_getitem channel (lit ''name'') of
        Inl e \<Rightarrow> (Some e, [], w)
      | Inr channel_name \<Rightarrow>
     (case py_getitem config (lit ''global_settings'') of
        Inl e \<Rightarrow> (Some e, [], w)
      | Inr gs \<Rightarrow>
     (case py_get gs (lit ''max_videos_per_channel'') (JInt 3) of
        Inl e \<Rightarrow> (Some e, [], w)
      | Inr max_results \<Rightarrow>
          let (videos, w1) = call_get_channel_videos svc channel_id max_results published_after w;
              tr1 = [EvDiscover channel_id max_results published_after videos];
              (r, tr2, w2) =
                (case videos of
                   None \<Rightarrow> (None, [], w1)
                 | Some vs \<Rightarrow> videos_loop svc config channel processed_videos vs w1)
          in (case r of
                Some e \<Rightarrow> (Some e, tr1 @ tr2, w2)
              | None \<Rightarrow>
                  let (r', tr3, w3) =
                        channels_loop svc config processed_videos published_after rest w2
                  in (r', tr1 @ tr2 @ tr3, w3))))))"

text \<open>What a \<open>for\<close> loop iterates over: the items of a list, the keys of a dict, the
  characters of a string; the other values are not iterable.\<close>

fun py_iter :: "json \<Rightarrow> exn + json list" where
  "py_iter (JList xs) = Inr xs"
| "py_iter (JObj kvs) = Inr (map (\<lambda>kv. JStr (fst kv)) kvs)"
| "py_iter (JStr s) = Inr (map (\<lambda>c. JStr [c]) s)"
| "py_iter JNull = Inl TypeError"
| "py_iter (JBool b) = Inl TypeError"
| "py_iter (JInt i) = Inl TypeError"
| "py_iter (JFloat x) = Inl TypeError"

text \<open>\<open>main\<close> after \<open>load_config\<close> has returned.\<close>

definition run_with_config ::
  "'w services \<Rightarrow> json \<Rightarrow> 'w \<Rightarrow> exn option \<times> event list \<times> 'w" where
  "run_with_config svc config w =
     (let (processed_videos, w1) = call_get_processed_videos svc w;
          tr1 = [EvProcessedRead processed_videos]
      in (case py_getitem config (lit ''global_settings'') of
            Inl e \<Rightarrow> (Some e, tr1, w1)
          | Inr gs \<Rightarrow>
         (case py_get gs (lit ''days_to_look_back'') (JInt 1) of
            Inl e \<Rightarrow> (Some e, tr1, w1)
          | Inr days_to_look_back \<Rightarrow>
              let (pa, w2) = call_published_after svc days_to_look_back w1
              in (case pa of
                    Inl e \<Rightarrow> (Some e, tr1, w2)
                  | Inr published_after \<Rightarrow>
                 (case py_getitem config (lit ''channels'') of
                    Inl e \<Rightarrow> (Some e, tr1, w2)
                  | Inr channels \<Rightarrow>
                 (case py_iter channels of
                    Inl e \<Rightarrow> (Some e, tr1, w2)
                  | Inr chs \<Rightarrow>
                      let (r, tr2, w3) =
                            channels_loop svc config processed_videos published_after chs w2
                      in (r, tr1 @ tr2, w3)))))))"

text \<open>\<open>main\<close>: \<open>None\<close> when the run completes, the exception when one leaves it (to be
  caught by \<open>lambda_handler\<close>).\<close>

definition main :: "'w services \<Rightarrow> config_env \<Rightarrow> 'w \<Rightarrow> exn option \<times> event list \<times> 'w" where
  "main svc env w =
     (case load_config env of
        Inl e \<Rightarrow> (Some e, [], w)
      | Inr config \<Rightarrow> run_with_config svc config w)"

section \<open>Reference definitions and sample inputs\<close>


text \<open>
  The invariant with presence in place of non-emptiness: a non-empty list of channels,
  each a dict with the keys \<open>channel_id\<close> and \<open>name\<close>, and global settings which, being
  a dict, have every required field.
\<close>

definition has_field :: "json \<Rightarrow> pystr \<Rightarrow> bool" where
  "has_field v k = (case v of JObj kvs \<Rightarrow> map_of kvs k \<noteq> None | _ \<Rightarrow> False)"




text \<open>Sample configuration texts and what \<open>json.loads\<close> makes of them.\<close>

definition settings_json :: json where
  "settings_json =
     JObj [(lit ''default_summary_style'', JStr (lit ''concise'')),
           (lit ''default_summary_length'', JInt 500),
           (lit ''default_include_timestamps'', JBool True)]"

definition settings_text :: pystr where
  "settings_text = lit ''{\"default_summary_style\": \"concise\", \"default_summary_length\": 500, \"default_include_timestamps\": true}''"

definition remote_invalid_text :: pystr where
  "remote_invalid_text = lit ''{\"a\": 1}''"

definition remote_invalid_json :: json where
  "remote_invalid_json = JObj [(lit ''a'', JInt 1)]"

definition local_valid_text :: pystr where
  "local_valid_text =
     lit ''{\"channels\": [{\"channel_id\": \"UC1\", \"name\": \"One\"}], \"global_settings\": '' @ settings_text @ lit ''}''"

definition local_valid_json :: json where
  "local_valid_json =
     JObj [(lit ''channels'',
            JList [JObj [(lit ''channel_id'', JStr (lit ''UC1'')), (lit ''name'', JStr (lit ''One''))]]),
           (lit ''global_settings'', settings_json)]"

definition blank_names_text :: pystr where
  "blank_names_text =
     lit ''{\"channels\": [{\"channel_id\": \"\", \"name\": \"\"}], \"global_settings\": '' @ settings_text @ lit ''}''"

definition blank_names_json :: json where
  "blank_names_json =
     JObj [(lit ''channels'',
            JList [JObj [(lit ''channel_id'', JStr []), (lit ''name'', JStr [])]]),
           (lit ''global_settings'', settings_json)]"

definition sample_loads :: "pystr \<Rightarrow> exn + json" where
  "sample_loads t =
     (if t = remote_invalid_text then Inr remote_invalid_json
      else if t = local_valid_text then Inr local_valid_json
      else if t = blank_names_text then Inr blank_names_json
      else Inl JSONDecodeError)"


definition env_remote_garbled :: config_env where
  "env_remote_garbled =
     \<lparr>S3_CONFIG_BUCKET = Some (lit ''bucket''), S3_CONFIG_KEY = lit ''channels.json'',
      s3_get_object = (\<lambda>b k. Inr (lit ''{not json'')),
      config_file = FileText local_valid_text, json_loads = sample_loads\<rparr>"


text \<open>
  \<open>TranscriptList.find_transcript\<close> of the transcript library, which is not part of
  the repository, after the library's documentation and source: a transcript list
  holds the manually created and the generated transcripts of a video, each keyed by
  language code; the language codes are tried in the order given, each in the manually
  created transcripts first, and \<open>NoTranscriptFound\<close> is raised when no code has a
  transcript. With no language code at all it raises.
\<close>

fun find_in_dicts :: "pystr \<Rightarrow> (pystr \<times> 't) list list \<Rightarrow> 't option" where
  "find_in_dicts code [] = None"
| "find_in_dicts code (d # ds) =
     (case map_of d code of Some t \<Rightarrow> Some t | None \<Rightarrow> find_in_dicts code ds)"

fun library_find_transcript :: "(pystr \<times> 't) list list \<Rightarrow> pystr list \<Rightarrow> exn + 't" where
  "library_find_transcript dicts [] = Inl NoTranscriptFound"
| "library_find_transcript dicts (code # codes) =
     (case find_in_dicts code dicts of
        Some t \<Rightarrow> Inr t
      | None \<Rightarrow> library_find_transcript dicts codes)"

text \<open>
  A video whose only transcript is a manually created Spanish one (transcript 1), which
  the library can translate (to transcript 2) and fetch.
\<close>

definition sample_entries :: "json list" where
  "sample_entries =
     [JObj [(lit ''text'', JStr (lit ''This is a test transcript.''))],
      JObj [(lit ''text'', JStr (lit ''It has multiple entries.''))]]"

definition spanish_only :: "(pystr \<times> nat) list list" where
  "spanish_only = [[(lit ''es'', 1)], []]"

definition api_spanish_only :: "((pystr \<times> nat) list list, nat) transcript_api" where
  "api_spanish_only =
     \<lparr>list_transcripts = (\<lambda>v. Inr spanish_only),
      find_transcript = library_find_transcript,
      translate = (\<lambda>t code. Inr 2),
      fetch = (\<lambda>t. Inr sample_entries)\<rparr>"

text \<open>
  Sample services: each call returns a fixed result and counts one step of the world.
  Their parameters are the processed set, the discovery result, the transcript, the
  summary, and the results of posting and of recording.
\<close>

definition sample_services ::
  "pystr set \<Rightarrow> video list option \<Rightarrow> pystr option \<Rightarrow> pystr option \<Rightarrow> bool \<Rightarrow> bool \<Rightarrow> nat services"
where
  "sample_services processed videos transcript summary tweet_ok mark_ok =
     \<lparr>call_get_processed_videos = (\<lambda>w. (processed, Suc w)),
      call_published_after = (\<lambda>days w. (Inr (lit ''2024-01-01T00:00:00Z''), w)),
      call_get_channel_videos = (\<lambda>cid mr pa w. (videos, Suc w)),
      call_get_video_transcript = (\<lambda>v w. (transcript, Suc w)),
      call_generate_summary = (\<lambda>t st ml ts ti cn w. (summary, Suc w)),
      call_post_to_twitter = (\<lambda>s v ti cn w. (tweet_ok, Suc w)),
      call_mark_video_as_processed = (\<lambda>v cn s w. (mark_ok, Suc w))\<rparr>"

definition video_one :: video where
  "video_one = \<lparr>videoId = lit ''vid00000001'', title = lit ''First video'',
                 channelTitle = lit ''One''\<rparr>"

definition channel_plain :: json where
  "channel_plain = JObj [(lit ''channel_id'', JStr (lit ''UC1'')), (lit ''name'', JStr (lit ''One''))]"

definition channel_twitter :: json where
  "channel_twitter =
     JObj [(lit ''channel_id'', JStr (lit ''UC1'')), (lit ''name'', JStr (lit ''One'')),
           (lit ''post_to_twitter'', JBool True)]"

section \<open>Properties of the configuration loader\<close>








lemmas sample_defs = sample_loads_def remote_invalid_text_def remote_invalid_json_def
  local_valid_text_def local_valid_json_def blank_names_text_def blank_names_json_def
  settings_text_def settings_json_def lit_def




lemma validate_local_valid: "validate_config local_valid_json = Inr True"
  by (simp add: validate_config_def sample_defs required_global_settings_def)







section \<open>Properties of the summarizer\<close>

lemma length_lit: "length (lit s) = length s"
  by (simp add: lit_def)

lemma py_slice_to_nonneg: "0 \<le> n \<Longrightarrow> py_slice_to n s = take (nat n) s"
  by (simp add: py_slice_to_def)

text \<open>
  C5: \<open>generate_tweet\<close> computes the available length as the budget minus the
  length of the video URL, minus the length of \<open>" - "\<close> followed by the channel name,
  minus 3; when that is at most 50 it returns \<open>None\<close> and sends no request.
\<close>

theorem generate_tweet_floor:
  "available_length max_length video_id channel_name =
     max_length - int (length (lit ''https://youtu.be/'' @ video_id))
       - int (length (lit '' - '' @ channel_name)) - 3 \<and>
   (available_length max_length video_id channel_name \<le> 50 \<longrightarrow>
      generate_tweet key create summary video_title video_id channel_name max_length
        = ([], None))"
  by (simp add: available_length_def video_url_def attribution_def generate_tweet_def Let_def)

text \<open>
  C5 at a budget of 280 with a URL, attribution and separators of 232 characters: the
  available length is 48.
\<close>

theorem generate_tweet_floor_witness:
  "available_length 280 (replicate 11 86) (replicate 198 67) = 48 \<and>
   available_length 280 (replicate 11 86) (replicate 198 67) \<le> 50 \<and>
   generate_tweet (Some (lit ''sk-key'')) (\<lambda>r. ContentText (lit ''Watch this''))
     (lit ''A summary'') (lit ''A title'') (replicate 11 86) (replicate 198 67) 280 = ([], None)"
proof -
  have a: "available_length 280 (replicate 11 86) (replicate 198 67) = 48"
    by (simp add: available_length_def video_url_def attribution_def length_lit)
  show ?thesis
    using generate_tweet_floor [of 280 "replicate 11 86" "replicate 198 67"
        "Some (lit ''sk-key'')" "\<lambda>r. ContentText (lit ''Watch this'')"
        "lit ''A summary''" "lit ''A title''"] a
    by simp
qed

text \<open>
  C4: whenever \<open>generate_tweet\<close> with a budget of 280 returns a payload, the payload
  has at most 280 characters, and it is the stripped generated text, cut to the
  available length minus 3 and followed by an ellipsis when it is longer than the
  available length, then a single space, the video URL and the attribution.
\<close>

theorem generate_tweet_fits:
  assumes "generate_tweet key create summary video_title video_id channel_name 280
             = (reqs, Some payload)"
  shows "length payload \<le> 280 \<and>
         (\<exists>req content.
            reqs = [req] \<and> create req = ContentText content \<and>
            payload =
              (if int (length (py_strip content)) > available_length 280 video_id channel_name
               then take (nat (available_length 280 video_id channel_name - 3)) (py_strip content)
                      @ lit ''...''
               else py_strip content)
              @ lit '' '' @ video_url video_id @ attribution channel_name)"
proof -
  define avail where "avail = available_length 280 video_id channel_name"
  from assms have big: "50 < avail"
    by (auto simp: generate_tweet_def Let_def avail_def split: if_splits)
  from assms big obtain content where
    c: "create \<lparr>model = lit ''gpt-3.5-turbo'',
          system_content = lit ''You are a social media expert who creates engaging tweets.'',
          user_content = tweet_prompt summary video_title channel_name avail,
          temperature = 7 / 10, max_tokens = 100\<rparr> = ContentText content"
    and r: "reqs = [\<lparr>model = lit ''gpt-3.5-turbo'',
          system_content = lit ''You are a social media expert who creates engaging tweets.'',
          user_content = tweet_prompt summary video_title channel_name avail,
          temperature = 7 / 10, max_tokens = 100\<rparr>]"
    and p: "payload =
              (if int (length (py_strip content)) > avail
               then py_slice_to (avail - 3) (py_strip content) @ lit ''...''
               else py_strip content)
              @ lit '' '' @ video_url video_id @ attribution channel_name"
    by (auto simp: generate_tweet_def Let_def avail_def split: if_splits completion.splits)
  have sl: "py_slice_to (avail - 3) (py_strip content) = take (nat (avail - 3)) (py_strip content)"
    using big by (simp add: py_slice_to_nonneg)
  have rest: "int (length (video_url video_id)) + int (length (attribution channel_name))
                = 277 - avail"
    by (simp add: avail_def available_length_def)
  have len: "length payload \<le> 280"
  proof (cases "int (length (py_strip content)) > avail")
    case True
    then have "length (take (nat (avail - 3)) (py_strip content)) = nat (avail - 3)"
      using big by simp
    with True p sl rest big show ?thesis
      by (simp add: length_lit)
  next
    case False
    with p rest big show ?thesis
      by (simp add: length_lit)
  qed
  from c r p sl len show ?thesis
    unfolding avail_def by auto
qed


lemma py_strip_replicate: "\<not> py_isspace c \<Longrightarrow> py_strip (replicate n c) = replicate n c"
  by (simp add: py_strip_def dropWhile_replicate)

text \<open>
  C4 at an available length of 247 with a generated text of 260 characters: the text
  is cut to 244 characters and the ellipsis.
\<close>

theorem generate_tweet_fits_witness:
  "generate_tweet (Some (lit ''sk-key'')) (\<lambda>r. ContentText (replicate 260 65))
     (lit ''A summary'') (lit ''A title'') (replicate 5 86) (replicate 5 67) 280
   = ([\<lparr>model = lit ''gpt-3.5-turbo'',
        system_content = lit ''You are a social media expert who creates engaging tweets.'',
        user_content = tweet_prompt (lit ''A summary'') (lit ''A title'') (replicate 5 67) 247,
        temperature = 7 / 10, max_tokens = 100\<rparr>],
      Some (replicate 244 65 @ lit ''...'' @ lit '' '' @ video_url (replicate 5 86) @
            attribution (replicate 5 67))) \<and>
   length (replicate 244 65 @ lit ''...'' @ lit '' '' @ video_url (replicate 5 86) @
            attribution (replicate 5 67)) \<le> 280"
proof -
  have a: "available_length 280 (replicate 5 86) (replicate 5 67) = 247"
    by (simp add: available_length_def video_url_def attribution_def length_lit)
  have s: "py_strip (replicate 260 65) = replicate 260 65"
    by (rule py_strip_replicate) (simp add: py_isspace_def)
  have eq: "generate_tweet (Some (lit ''sk-key'')) (\<lambda>r. ContentText (replicate 260 65))
     (lit ''A summary'') (lit ''A title'') (replicate 5 86) (replicate 5 67) 280
   = ([\<lparr>model = lit ''gpt-3.5-turbo'',
        system_content = lit ''You are a social media expert who creates engaging tweets.'',
        user_content = tweet_prompt (lit ''A summary'') (lit ''A title'') (replicate 5 67) 247,
        temperature = 7 / 10, max_tokens = 100\<rparr>],
      Some (replicate 244 65 @ lit ''...'' @ lit '' '' @ video_url (replicate 5 86) @
            attribution (replicate 5 67)))"
    by (simp add: generate_tweet_def a s py_slice_to_def lit_def)
  from generate_tweet_fits [OF eq] eq show ?thesis
    by simp
qed

text \<open>
  C6: with a key and a non-empty transcript, \<open>generate_summary\<close> makes exactly one
  completion call; the prompt of the request it passes to that call is the composed
  prompt when that has at most 16000 characters, and otherwise its first 16000
  characters followed by the truncation marker; and what it returns is read from the
  answer to that very request. Without a key or a transcript it makes no call.
\<close>

theorem generate_summary_dispatch:
  "(OPENAI_API_KEY \<noteq> None \<and> OPENAI_API_KEY \<noteq> Some [] \<and> transcript \<noteq> [] \<longrightarrow>
      (\<exists>req.
         model req = mdl \<and>
         user_content req =
           (if 16000 < length (summary_prompt transcript style max_length
                                 include_timestamps video_title channel_name)
            then take 16000 (summary_prompt transcript style max_length
                               include_timestamps video_title channel_name)
                   @ lit ''... [transcript truncated due to length]''
            else summary_prompt transcript style max_length
                   include_timestamps video_title channel_name) \<and>
         generate_summary OPENAI_API_KEY create transcript style max_length
             include_timestamps video_title channel_name mdl
           = ([req],
              case create req of
                ContentText c \<Rightarrow> Some (py_strip c)
              | CreateRaises e \<Rightarrow> None
              | NoChoices \<Rightarrow> None
              | ContentNone \<Rightarrow> None))) \<and>
   (OPENAI_API_KEY = None \<or> OPENAI_API_KEY = Some [] \<or> transcript = [] \<longrightarrow>
      generate_summary OPENAI_API_KEY create transcript style max_length
             include_timestamps video_title channel_name mdl = ([], None))"
proof (intro conjI impI)
  assume a: "OPENAI_API_KEY \<noteq> None \<and> OPENAI_API_KEY \<noteq> Some [] \<and> transcript \<noteq> []"
  define p where "p = summary_prompt transcript style max_length
                        include_timestamps video_title channel_name"
  define req where "req =
     \<lparr>model = mdl,
      system_content = lit ''You are a helpful assistant that summarizes YouTube videos accurately and concisely.'',
      user_content = (if 16000 < length p
                      then take 16000 p @ lit ''... [transcript truncated due to length]''
                      else p),
      temperature = 5 / 10, max_tokens = 1000\<rparr>"
  have "generate_summary OPENAI_API_KEY create transcript style max_length
             include_timestamps video_title channel_name mdl
           = ([req],
              case create req of
                ContentText c \<Rightarrow> Some (py_strip c)
              | CreateRaises e \<Rightarrow> None
              | NoChoices \<Rightarrow> None
              | ContentNone \<Rightarrow> None)"
    using a
    by (simp add: generate_summary_def Let_def max_prompt_length_def truncation_marker_def
        req_def p_def split: completion.splits)
  moreover have "model req = mdl"
    by (simp add: req_def)
  moreover have "user_content req =
      (if 16000 < length p
       then take 16000 p @ lit ''... [transcript truncated due to length]'' else p)"
    by (simp add: req_def)
  ultimately show "\<exists>req.
         model req = mdl \<and>
         user_content req =
           (if 16000 < length (summary_prompt transcript style max_length
                                 include_timestamps video_title channel_name)
            then take 16000 (summary_prompt transcript style max_length
                               include_timestamps video_title channel_name)
                   @ lit ''... [transcript truncated due to length]''
            else summary_prompt transcript style max_length
                   include_timestamps video_title channel_name) \<and>
         generate_summary OPENAI_API_KEY create transcript style max_length
             include_timestamps video_title channel_name mdl
           = ([req],
              case create req of
                ContentText c \<Rightarrow> Some (py_strip c)
              | CreateRaises e \<Rightarrow> None
              | NoChoices \<Rightarrow> None
              | ContentNone \<Rightarrow> None)"
    unfolding p_def by blast
next
  assume "OPENAI_API_KEY = None \<or> OPENAI_API_KEY = Some [] \<or> transcript = []"
  then show "generate_summary OPENAI_API_KEY create transcript style max_length
             include_timestamps video_title channel_name mdl = ([], None)"
    by (auto simp: generate_summary_def)
qed

text \<open>
  C6 at a transcript of 16000 characters, with a completion that answers the truncated
  prompt only: the composed prompt is longer than 16000, the prompt sent has 16000
  characters and the 40 of the marker, and the answer is returned.
\<close>

theorem generate_summary_dispatch_witness:
  "Some (lit ''sk-key'') \<noteq> None \<and> Some (lit ''sk-key'') \<noteq> Some [] \<and>
   replicate 16000 (97::nat) \<noteq> [] \<and>
   16000 < length (summary_prompt (replicate 16000 97) (lit ''concise'') 500 True None None) \<and>
   map user_content
     (fst (generate_summary (Some (lit ''sk-key''))
             (\<lambda>r. if length (user_content r) = 16040 then ContentText (lit ''A summary.'')
                   else CreateRaises OtherError)
             (replicate 16000 97) (lit ''concise'') 500 True None None (lit ''gpt-4-turbo'')))
   = [take 16000 (summary_prompt (replicate 16000 97) (lit ''concise'') 500 True None None)
        @ lit ''... [transcript truncated due to length]''] \<and>
   snd (generate_summary (Some (lit ''sk-key''))
             (\<lambda>r. if length (user_content r) = 16040 then ContentText (lit ''A summary.'')
                   else CreateRaises OtherError)
             (replicate 16000 97) (lit ''concise'') 500 True None None (lit ''gpt-4-turbo''))
   = Some (lit ''A summary.'')"
proof -
  have k: "Some (lit ''sk-key'') \<noteq> Some []"
    by (simp add: lit_def)
  have t: "replicate 16000 (97::nat) \<noteq> []"
    by simp
  have l: "16000 < length (summary_prompt (replicate 16000 97) (lit ''concise'') 500 True None None)"
    by (simp add: summary_prompt_def)
  have s: "py_strip (lit ''A summary.'') = lit ''A summary.''"
    by (simp add: py_strip_def py_isspace_def lit_def)
  from generate_summary_dispatch [of "Some (lit ''sk-key'')" "replicate 16000 97"
      "lit ''gpt-4-turbo''" "lit ''concise''" 500 True None None
      "\<lambda>r. if length (user_content r) = 16040 then ContentText (lit ''A summary.'')
           else CreateRaises OtherError"] k t l
  show ?thesis
    by (auto simp: length_lit s)
qed

section \<open>Properties of the transcript fetcher\<close>

lemma fallback_never_selects:
  assumes "find_transcript api = library_find_transcript"
    and "list_transcripts api v = Inr dicts"
    and "find_transcript api dicts [l] = Inl NoTranscriptFound"
  shows "get_video_transcript api v l = None"
  using assms by (simp add: get_video_transcript_def)

text \<open>
  C7 fails on the code: for a video whose only transcript is Spanish, with English
  preferred, the search in the preferred language raises \<open>NoTranscriptFound\<close>; the
  Spanish transcript exists, can be translated and fetched, and yet
  \<open>get_video_transcript\<close> returns \<open>None\<close>, because the search with no language code
  raises before anything is translated.
\<close>

theorem get_video_transcript_no_fallback:
  "list_transcripts api_spanish_only (lit ''test_video_id'') = Inr spanish_only \<and>
   find_transcript api_spanish_only spanish_only [lit ''en''] = Inl NoTranscriptFound \<and>
   find_transcript api_spanish_only spanish_only [lit ''es''] = Inr 1 \<and>
   translate api_spanish_only 1 (lit ''en'') = Inr 2 \<and>
   fetch_and_join api_spanish_only 2
     = Some (lit ''This is a test transcript. It has multiple entries.'') \<and>
   find_transcript api_spanish_only spanish_only [] = Inl NoTranscriptFound \<and>
   get_video_transcript api_spanish_only (lit ''test_video_id'') (lit ''en'') = None"
proof -
  have f: "find_transcript api_spanish_only = library_find_transcript"
    and l: "list_transcripts api_spanish_only (lit ''test_video_id'') = Inr spanish_only"
    by (simp_all add: api_spanish_only_def)
  have en: "find_transcript api_spanish_only spanish_only [lit ''en''] = Inl NoTranscriptFound"
    and es: "find_transcript api_spanish_only spanish_only [lit ''es''] = Inr 1"
    by (simp_all add: api_spanish_only_def spanish_only_def lit_def)
  have tr: "translate api_spanish_only 1 (lit ''en'') = Inr 2"
    by (simp add: api_spanish_only_def)
  have fj: "fetch_and_join api_spanish_only 2
     = Some (lit ''This is a test transcript. It has multiple entries.'')"
    by (simp add: fetch_and_join_def api_spanish_only_def sample_entries_def lit_def)
  from fallback_never_selects [OF f l en] l en es tr fj show ?thesis
    by (simp add: f)
qed

section \<open>Properties of the pipeline\<close>

lemma setting_of_dict: "setting_of config ch k dk = Inr x \<Longrightarrow> is_dict ch"
  by (auto simp: setting_of_def split: if_splits)

lemma distribute_and_record_marks:
  assumes "is_dict ch" and "distribute_and_record svc video ch s w = (r, tr, w')"
  shows "r = Inr True \<and>
         (\<exists>ok. filter is_mark tr = [EvMark (videoId video) (channelTitle video) s ok]) \<and>
         filter is_summary tr = []"
proof -
  from assms(1) obtain kvs where ch: "ch = JObj kvs" by (cases ch) auto
  from assms(2) show ?thesis
    unfolding distribute_and_record_def ch Let_def
    by (auto split: prod.splits if_splits)
qed

lemma distribute_and_record_sinks:
  assumes "distribute_and_record svc video ch s w = (r, tr, w')"
  shows "(\<not> has_field ch (lit ''post_to_twitter'') \<longrightarrow> filter is_tweet tr = []) \<and>
         (\<not> has_field ch (lit ''post_to_blog'') \<longrightarrow> filter is_blog tr = [])"
  using assms unfolding distribute_and_record_def Let_def has_field_def
  by (cases ch) (auto split: prod.splits if_splits option.splits)

text \<open>The three shapes a run of \<open>process_video\<close> can have.\<close>

lemma process_video_shape:
  assumes "process_video svc config video ch w = (r, tr, w')"
  shows "(\<exists>x. tr = [EvTranscript (videoId video) x] \<and> r \<noteq> Inr True) \<or>
         (\<exists>t st ml ts x. tr = [EvTranscript (videoId video) (Some t),
                EvSummary t st ml ts (title video) (channelTitle video) x] \<and>
              (x = None \<or> x = Some []) \<and> r = Inr False) \<or>
         (\<exists>t st ml ts s tr3 w2. s \<noteq> [] \<and> t \<noteq> [] \<and> is_dict ch \<and>
              tr = [EvTranscript (videoId video) (Some t),
                EvSummary t st ml ts (title video) (channelTitle video) (Some s)] @ tr3 \<and>
              distribute_and_record svc video ch s w2 = (r, tr3, w'))"
  using assms unfolding process_video_def Let_def
  by (auto split: prod.splits option.splits if_splits sum.splits dest: setting_of_dict)

lemma process_video_after_summary:
  assumes pv: "process_video svc config video ch w = (r, tr, w')"
    and ev: "EvSummary t st ml ts ti cn (Some s) \<in> set tr" and ne: "s \<noteq> []"
  shows "r = Inr True \<and>
         (\<exists>ok. filter is_mark tr = [EvMark (videoId video) (channelTitle video) s ok])"
proof -
  from process_video_shape [OF pv] ev ne
  obtain t' st' ml' ts' s' tr3 w2 where d: "is_dict ch"
    and tr: "tr = [EvTranscript (videoId video) (Some t'),
                EvSummary t' st' ml' ts' (title video) (channelTitle video) (Some s')] @ tr3"
    and dr: "distribute_and_record svc video ch s' w2 = (r, tr3, w')"
    by auto
  from distribute_and_record_marks [OF d dr]
  have r: "r = Inr True"
    and m: "\<exists>ok. filter is_mark tr3 = [EvMark (videoId video) (channelTitle video) s' ok]"
    and ns: "filter is_summary tr3 = []"
    by auto
  from ns have "EvSummary t st ml ts ti cn (Some s) \<notin> set tr3"
    by (auto simp: filter_empty_conv)
  with ev tr have "s' = s" by auto
  with r m tr show ?thesis by auto
qed

lemma process_video_sinks:
  assumes "process_video svc config video ch w = (r, tr, w')"
  shows "(\<not> has_field ch (lit ''post_to_twitter'') \<longrightarrow> filter is_tweet tr = []) \<and>
         (\<not> has_field ch (lit ''post_to_blog'') \<longrightarrow> filter is_blog tr = [])"
  using process_video_shape [OF assms]
  by (auto dest: distribute_and_record_sinks)

lemma videos_loop_all_processed:
  "\<forall>v\<in>set vids. videoId v \<in> P \<Longrightarrow> videos_loop svc config ch P vids w = (None, [], w)"
  by (induction vids) auto

lemma channels_loop_all_processed:
  assumes "channels_loop svc config P pa chs w = (r, tr, w')"
    and "\<forall>cid mr pa' vs v. EvDiscover cid mr pa' (Some vs) \<in> set tr \<and> v \<in> set vs
           \<longrightarrow> videoId v \<in> P"
  shows "list_all is_read tr"
  using assms
proof (induction chs arbitrary: w r tr w')
  case Nil
  then show ?case by simp
next
  case (Cons ch chs)
  show ?case
  proof (cases "\<exists>cid nm gs mr. py_getitem ch (lit ''channel_id'') = Inr cid \<and>
      py_getitem ch (lit ''name'') = Inr nm \<and>
      py_getitem config (lit ''global_settings'') = Inr gs \<and>
      py_get gs (lit ''max_videos_per_channel'') (JInt 3) = Inr mr")
    case False
    with Cons.prems(1) have "tr = []"
      by (auto split: sum.splits)
    then show ?thesis by simp
  next
    case True
    then obtain cid nm gs mr where
      l: "py_getitem ch (lit ''channel_id'') = Inr cid"
         "py_getitem ch (lit ''name'') = Inr nm"
         "py_getitem config (lit ''global_settings'') = Inr gs"
         "py_get gs (lit ''max_videos_per_channel'') (JInt 3) = Inr mr"
      by auto
    obtain videos w1 where d: "call_get_channel_videos svc cid mr pa w = (videos, w1)"
      by (cases "call_get_channel_videos svc cid mr pa w") auto
    obtain r3 tr3 w3 where rest: "channels_loop svc config P pa chs w1 = (r3, tr3, w3)"
      by (cases "channels_loop svc config P pa chs w1") auto
    have first: "EvDiscover cid mr pa videos \<in> set tr"
      using Cons.prems(1) l d
      by (auto simp: Let_def split: prod.splits option.splits)
    have skip: "videos_loop svc config ch P vs w1 = (None, [], w1)" if "videos = Some vs" for vs
      using that first Cons.prems(2) by (intro videos_loop_all_processed) blast
    have tr: "tr = EvDiscover cid mr pa videos # tr3"
      using Cons.prems(1) l d rest skip
      by (cases videos) (auto simp: Let_def)
    with Cons.prems(2) have "\<forall>cid mr pa' vs v. EvDiscover cid mr pa' (Some vs) \<in> set tr3 \<and> v \<in> set vs
           \<longrightarrow> videoId v \<in> P"
      by simp blast
    from Cons.IH [OF rest this] tr show ?thesis by simp
  qed
qed


lemmas run_defs = sample_services_def video_one_def channel_plain_def channel_twitter_def
  process_video_def distribute_and_record_def setting_of_def local_valid_json_def
  settings_json_def lit_def

text \<open>
  C3, amended: when the summarization call of \<open>process_video\<close> returns a summary that
  is not \<open>None\<close> and not empty, the run makes exactly one record write, for that video
  and that summary, whatever the sinks do.
\<close>

theorem process_video_records_once:
  assumes "process_video svc config video ch w = (r, tr, w')"
    and "EvSummary t st ml ts ti cn (Some s) \<in> set tr" and "s \<noteq> []"
  shows "\<exists>ok. filter is_mark tr = [EvMark (videoId video) (channelTitle video) s ok]"
  using process_video_after_summary [OF assms] by simp

lemma run_failed_tweet:
  "process_video
     (sample_services {} None (Some (lit ''hello world'')) (Some (lit ''A summary.'')) False True)
     local_valid_json video_one channel_twitter 0
   = (Inr True,
      [EvTranscript (lit ''vid00000001'') (Some (lit ''hello world'')),
       EvSummary (lit ''hello world'') (JStr (lit ''concise'')) (JInt 500) (JBool True)
         (lit ''First video'') (lit ''One'') (Some (lit ''A summary.'')),
       EvTweet (lit ''A summary.'') (lit ''vid00000001'') (lit ''First video'') (lit ''One'') False,
       EvMark (lit ''vid00000001'') (lit ''One'') (lit ''A summary.'') True],
      4)"
  by (simp add: run_defs)

text \<open>
  C3, amended, at a channel whose only enabled sink fails: the record is written.
\<close>

theorem process_video_records_once_witness:
  "EvSummary (lit ''hello world'') (JStr (lit ''concise'')) (JInt 500) (JBool True)
     (lit ''First video'') (lit ''One'') (Some (lit ''A summary.''))
     \<in> set (fst (snd (process_video
          (sample_services {} None (Some (lit ''hello world'')) (Some (lit ''A summary.'')) False True)
          local_valid_json video_one channel_twitter 0))) \<and>
   lit ''A summary.'' \<noteq> [] \<and>
   EvTweet (lit ''A summary.'') (lit ''vid00000001'') (lit ''First video'') (lit ''One'') False
     \<in> set (fst (snd (process_video
          (sample_services {} None (Some (lit ''hello world'')) (Some (lit ''A summary.'')) False True)
          local_valid_json video_one channel_twitter 0))) \<and>
   filter is_mark (fst (snd (process_video
          (sample_services {} None (Some (lit ''hello world'')) (Some (lit ''A summary.'')) False True)
          local_valid_json video_one channel_twitter 0)))
     = [EvMark (lit ''vid00000001'') (lit ''One'') (lit ''A summary.'') True]"
proof -
  have ne: "lit ''A summary.'' \<noteq> []" by (simp add: lit_def)
  from process_video_records_once [OF run_failed_tweet _ ne,
      of "lit ''hello world''" "JStr (lit ''concise'')" "JInt 500" "JBool True"
         "lit ''First video''" "lit ''One''"] ne
  show ?thesis
    by (simp add: run_failed_tweet)
qed

text \<open>
  C3, as stated, fails: a summarization that returns the empty string, which is not
  \<open>None\<close>, ends \<open>process_video\<close> without a record write.
\<close>

theorem process_video_empty_summary_counterexample:
  "fst (snd (process_video
          (sample_services {} None (Some (lit ''hello world'')) (Some []) False True)
          local_valid_json video_one channel_twitter 0))
     = [EvTranscript (lit ''vid00000001'') (Some (lit ''hello world'')),
        EvSummary (lit ''hello world'') (JStr (lit ''concise'')) (JInt 500) (JBool True)
          (lit ''First video'') (lit ''One'') (Some [])] \<and>
   filter is_mark (fst (snd (process_video
          (sample_services {} None (Some (lit ''hello world'')) (Some []) False True)
          local_valid_json video_one channel_twitter 0))) = []"
  by (simp add: run_defs)

text \<open>
  C9, amended: when the transcript is not \<open>None\<close> and the summary is not \<open>None\<close> and
  not empty, \<open>process_video\<close> returns \<open>True\<close>; the record write is its last step and
  its result is not used.
\<close>

theorem process_video_ignores_mark_result:
  assumes "process_video svc config video ch w = (r, tr, w')"
    and "EvTranscript v (Some t) \<in> set tr"
    and "EvSummary t' st ml ts ti cn (Some s) \<in> set tr" and "s \<noteq> []"
  shows "r = Inr True \<and> (\<exists>ok. last tr = EvMark (videoId video) (channelTitle video) s ok)"
proof -
  from process_video_after_summary [OF assms(1,3,4)]
  obtain ok where r: "r = Inr True"
    and m: "filter is_mark tr = [EvMark (videoId video) (channelTitle video) s ok]"
    by auto
  from process_video_shape [OF assms(1)] r
  obtain t2 st2 ml2 ts2 s2 tr3 w2 where d: "is_dict ch"
    and tr: "tr = [EvTranscript (videoId video) (Some t2),
                EvSummary t2 st2 ml2 ts2 (title video) (channelTitle video) (Some s2)] @ tr3"
    and dr: "distribute_and_record svc video ch s2 w2 = (r, tr3, w')"
    by auto
  from d obtain kvs where ch: "ch = JObj kvs" by (cases ch) auto
  from dr obtain ok2 where ne: "tr3 \<noteq> []"
    and l: "last tr3 = EvMark (videoId video) (channelTitle video) s2 ok2"
    unfolding distribute_and_record_def ch Let_def
    by (auto split: prod.splits if_splits)
  from ne l have "EvMark (videoId video) (channelTitle video) s2 ok2 \<in> set (filter is_mark tr3)"
    using last_in_set [OF ne] by simp
  with m tr have "s2 = s" by simp
  with tr ne l r show ?thesis by simp
qed

lemma run_failed_mark:
  "process_video
     (sample_services {} None (Some (lit ''hello world'')) (Some (lit ''A summary.'')) True False)
     local_valid_json video_one channel_plain 0
   = (Inr True,
      [EvTranscript (lit ''vid00000001'') (Some (lit ''hello world'')),
       EvSummary (lit ''hello world'') (JStr (lit ''concise'')) (JInt 500) (JBool True)
         (lit ''First video'') (lit ''One'') (Some (lit ''A summary.'')),
       EvMark (lit ''vid00000001'') (lit ''One'') (lit ''A summary.'') False],
      3)"
  by (simp add: run_defs)

text \<open>
  C9, amended, at a record write that returns \<open>False\<close>.
\<close>

theorem process_video_ignores_mark_result_witness:
  "EvTranscript (lit ''vid00000001'') (Some (lit ''hello world''))
     \<in> set (fst (snd (process_video
          (sample_services {} None (Some (lit ''hello world'')) (Some (lit ''A summary.'')) True False)
          local_valid_json video_one channel_plain 0))) \<and>
   EvSummary (lit ''hello world'') (JStr (lit ''concise'')) (JInt 500) (JBool True)
     (lit ''First video'') (lit ''One'') (Some (lit ''A summary.''))
     \<in> set (fst (snd (process_video
          (sample_services {} None (Some (lit ''hello world'')) (Some (lit ''A summary.'')) True False)
          local_valid_json video_one channel_plain 0))) \<and>
   lit ''A summary.'' \<noteq> [] \<and>
   fst (process_video
          (sample_services {} None (Some (lit ''hello world'')) (Some (lit ''A summary.'')) True False)
          local_valid_json video_one channel_plain 0) = Inr True \<and>
   last (fst (snd (process_video
          (sample_services {} None (Some (lit ''hello world'')) (Some (lit ''A summary.'')) True False)
          local_valid_json video_one channel_plain 0)))
     = EvMark (lit ''vid00000001'') (lit ''One'') (lit ''A summary.'') False"
proof -
  have ne: "lit ''A summary.'' \<noteq> []" by (simp add: lit_def)
  from process_video_ignores_mark_result [OF run_failed_mark _ _ ne,
      of "lit ''vid00000001''" "lit ''hello world''" "lit ''hello world''"
         "JStr (lit ''concise'')" "JInt 500" "JBool True" "lit ''First video''" "lit ''One''"]
    ne
  show ?thesis by (simp add: run_failed_mark)
qed

text \<open>
  C9, as stated, fails: with a transcript and a summary that are both not \<open>None\<close>, the
  summary being the empty string, \<open>process_video\<close> returns \<open>False\<close>.
\<close>

theorem process_video_returns_false_counterexample:
  "process_video
     (sample_services {} None (Some (lit ''hello world'')) (Some []) True True)
     local_valid_json video_one channel_plain 0
   = (Inr False,
      [EvTranscript (lit ''vid00000001'') (Some (lit ''hello world'')),
       EvSummary (lit ''hello world'') (JStr (lit ''concise'')) (JInt 500) (JBool True)
         (lit ''First video'') (lit ''One'') (Some [])],
      2)"
  by (simp add: run_defs)


text \<open>
  C10: for a channel without the key \<open>post_to_twitter\<close> the loop over its videos makes
  no call of \<open>post_to_twitter\<close>, and for a channel without the key \<open>post_to_blog\<close> it
  never reaches the blog step.
\<close>

theorem videos_loop_absent_flags:
  "videos_loop svc config ch P vids w = (r, tr, w') \<Longrightarrow>
     (\<not> has_field ch (lit ''post_to_twitter'') \<longrightarrow> filter is_tweet tr = []) \<and>
     (\<not> has_field ch (lit ''post_to_blog'') \<longrightarrow> filter is_blog tr = [])"
proof (induction vids arbitrary: w r tr w')
  case Nil
  then show ?case by simp
next
  case (Cons v vids)
  show ?case
  proof (cases "videoId v \<in> P")
    case True
    with Cons show ?thesis by simp
  next
    case False
    obtain r1 tr1 w1 where pv: "process_video svc config v ch w = (r1, tr1, w1)"
      by (cases "process_video svc config v ch w") auto
    obtain r2 tr2 w2 where vl: "videos_loop svc config ch P vids w1 = (r2, tr2, w2)"
      by (cases "videos_loop svc config ch P vids w1") auto
    from Cons.prems False pv vl have "tr = tr1 \<or> tr = tr1 @ tr2"
      by (cases r1) auto
    with process_video_sinks [OF pv] Cons.IH [OF vl] show ?thesis
      by auto
  qed
qed

text \<open>
  C10 at a channel with neither key and one new video.
\<close>

theorem videos_loop_absent_flags_witness:
  "videos_loop
     (sample_services {} None (Some (lit ''hello world'')) (Some (lit ''A summary.'')) True True)
     local_valid_json channel_plain {} [video_one] 0
   = (None,
      [EvTranscript (lit ''vid00000001'') (Some (lit ''hello world'')),
       EvSummary (lit ''hello world'') (JStr (lit ''concise'')) (JInt 500) (JBool True)
         (lit ''First video'') (lit ''One'') (Some (lit ''A summary.'')),
       EvMark (lit ''vid00000001'') (lit ''One'') (lit ''A summary.'') True],
      3) \<and>
   \<not> has_field channel_plain (lit ''post_to_twitter'') \<and>
   \<not> has_field channel_plain (lit ''post_to_blog'') \<and>
   filter is_tweet (fst (snd (videos_loop
     (sample_services {} None (Some (lit ''hello world'')) (Some (lit ''A summary.'')) True True)
     local_valid_json channel_plain {} [video_one] 0))) = [] \<and>
   filter is_blog (fst (snd (videos_loop
     (sample_services {} None (Some (lit ''hello world'')) (Some (lit ''A summary.'')) True True)
     local_valid_json channel_plain {} [video_one] 0))) = []"
proof -
  have run: "videos_loop
     (sample_services {} None (Some (lit ''hello world'')) (Some (lit ''A summary.'')) True True)
     local_valid_json channel_plain {} [video_one] 0
   = (None,
      [EvTranscript (lit ''vid00000001'') (Some (lit ''hello world'')),
       EvSummary (lit ''hello world'') (JStr (lit ''concise'')) (JInt 500) (JBool True)
         (lit ''First video'') (lit ''One'') (Some (lit ''A summary.'')),
       EvMark (lit ''vid00000001'') (lit ''One'') (lit ''A summary.'') True],
      3)"
    by (simp add: run_defs)
  have tw: "\<not> has_field channel_plain (lit ''post_to_twitter'')"
    and bl: "\<not> has_field channel_plain (lit ''post_to_blog'')"
    by (simp_all add: has_field_def channel_plain_def lit_def)
  from videos_loop_absent_flags [OF run] tw bl run show ?thesis
    by simp
qed

lemma list_all_is_read:
  "list_all is_read tr \<Longrightarrow> filter is_summary tr = [] \<and> filter is_mark tr = []"
proof (induction tr)
  case Nil
  then show ?case by simp
next
  case (Cons ev tr)
  then show ?case by (cases ev) auto
qed

text \<open>
  C2: when the processed set read at the start of \<open>main\<close> contains the id of every
  video that the discovery calls of the run return, the run consists of the read of
  the processed set and the discovery calls only: no transcript fetch, no
  summarization, no posting and no record write.
\<close>

theorem main_all_processed:
  assumes run: "main svc env w = (r, tr, w')"
    and known: "\<forall>P cid mr pa vs v.
        EvProcessedRead P \<in> set tr \<and> EvDiscover cid mr pa (Some vs) \<in> set tr \<and> v \<in> set vs
          \<longrightarrow> videoId v \<in> P"
  shows "list_all is_read tr \<and> filter is_summary tr = [] \<and> filter is_mark tr = []"
proof -
  have "list_all is_read tr"
  proof (cases "load_config env")
    case (Inl e)
    with run show ?thesis by (simp add: main_def)
  next
    case (Inr config)
    with run have rc: "run_with_config svc config w = (r, tr, w')"
      by (simp add: main_def)
    obtain P w1 where p: "call_get_processed_videos svc w = (P, w1)"
      by (cases "call_get_processed_videos svc w") auto
    show ?thesis
    proof (cases "tr = [EvProcessedRead P]")
      case True
      then show ?thesis by simp
    next
      case False
      with rc p obtain pa chs w2 tr2 where tr: "tr = EvProcessedRead P # tr2"
        and cl: "channels_loop svc config P pa chs w2 = (r, tr2, w')"
        unfolding run_with_config_def Let_def
        by (auto split: prod.splits sum.splits)
      from known tr have "\<forall>cid mr pa' vs v.
          EvDiscover cid mr pa' (Some vs) \<in> set tr2 \<and> v \<in> set vs \<longrightarrow> videoId v \<in> P"
        by simp
      from channels_loop_all_processed [OF cl this] tr show ?thesis
        by simp
    qed
  qed
  with list_all_is_read show ?thesis by blast
qed

lemma load_garbled: "load_config env_remote_garbled = Inr local_valid_json"
proof -
  have s3: "load_config_from_s3 env_remote_garbled = JNull"
    by (simp add: load_config_from_s3_def env_remote_garbled_def sample_defs)
  have loc: "load_config_from_file env_remote_garbled = local_valid_json"
    by (simp add: load_config_from_file_def env_remote_garbled_def sample_defs)
  show ?thesis
    by (simp add: load_config_def s3 loc validate_local_valid)
      (simp add: local_valid_json_def)
qed

text \<open>
  C2 at a run that discovers one video, already processed.
\<close>

theorem main_all_processed_witness:
  "main (sample_services {lit ''vid00000001''} (Some [video_one]) (Some (lit ''hello world''))
           (Some (lit ''A summary.'')) True True) env_remote_garbled 0
   = (None,
      [EvProcessedRead {lit ''vid00000001''},
       EvDiscover (JStr (lit ''UC1'')) (JInt 3) (lit ''2024-01-01T00:00:00Z'') (Some [video_one])],
      2) \<and>
   videoId video_one \<in> {lit ''vid00000001''} \<and>
   filter is_summary (fst (snd (main
        (sample_services {lit ''vid00000001''} (Some [video_one]) (Some (lit ''hello world''))
           (Some (lit ''A summary.'')) True True) env_remote_garbled 0))) = [] \<and>
   filter is_mark (fst (snd (main
        (sample_services {lit ''vid00000001''} (Some [video_one]) (Some (lit ''hello world''))
           (Some (lit ''A summary.'')) True True) env_remote_garbled 0))) = []"
proof -
  have run: "main (sample_services {lit ''vid00000001''} (Some [video_one]) (Some (lit ''hello world''))
           (Some (lit ''A summary.'')) True True) env_remote_garbled 0
   = (None,
      [EvProcessedRead {lit ''vid00000001''},
       EvDiscover (JStr (lit ''UC1'')) (JInt 3) (lit ''2024-01-01T00:00:00Z'') (Some [video_one])],
      2)"
    by (simp add: main_def load_garbled run_with_config_def)
      (simp add: run_defs)
  have v: "videoId video_one \<in> {lit ''vid00000001''}"
    by (simp add: video_one_def)
  have known: "\<forall>P cid mr pa vs v.
        EvProcessedRead P \<in> set [EvProcessedRead {lit ''vid00000001''},
           EvDiscover (JStr (lit ''UC1'')) (JInt 3) (lit ''2024-01-01T00:00:00Z'') (Some [video_one])] \<and>
        EvDiscover cid mr pa (Some vs) \<in> set [EvProcessedRead {lit ''vid00000001''},
           EvDiscover (JStr (lit ''UC1'')) (JInt 3) (lit ''2024-01-01T00:00:00Z'') (Some [video_one])] \<and>
        v \<in> set vs \<longrightarrow> videoId v \<in> P"
    using v by auto
  from main_all_processed [OF run known] run v show ?thesis
    by simp
qed

end
